theory Spec2Isabelle
  imports Main "HOL-Library.Sublist"
begin

section \<open>The runtime operations used by \<^verbatim>\<open>create_app_icon.py\<close>\<close>

text \<open>
  The script calls three built-in operations: \<^verbatim>\<open>open(path, 'w')\<close> inside a
  \<^verbatim>\<open>with\<close> statement, \<^verbatim>\<open>f.write(text)\<close> and \<^verbatim>\<open>print(text)\<close>.
  Their effect is on the world outside the program, which is made explicit as a record
  that every operation takes and returns:
  \<^item> \<open>files\<close>: the regular files, by path, with their contents. A \<open>char\<close> is one byte;
    the script writes text that is pure ASCII (lemma \<open>svg_content_ascii\<close> below), so the
    encoded bytes are the characters written. Newlines are not translated (POSIX).
  \<^item> \<open>stdout\<close>: the characters written to standard output so far. Standard output
    is taken to be present (\<^verbatim>\<open>sys.stdout\<close> is a stream).
  \<^item> \<open>open_files\<close>: the paths of the file handles that are currently open.
  \<^item> \<open>environ\<close>: the environment variables; \<open>spawned\<close>: the command lines of the
    child processes started so far.
  \<^item> \<open>open_fault\<close>: the error, if any, with which opening a path for writing fails
    (directory not writable, path unavailable, read-only file system).
  \<^item> \<open>write_fault\<close>: \<open>Some (n, e)\<close> when the device takes \<open>n\<close> more bytes and then
    reports the error \<open>e\<close> (file system full, quota, device error); \<open>None\<close> when it
    takes everything.
  \<^item> \<open>stdout_fault\<close>: the same for standard output: \<open>Some (n, e)\<close> when the stream
    takes \<open>n\<close> more characters and then raises \<open>e\<close> (a closed stream raises at
    once, a pipe whose reader has gone or a full device after what it still takes).

  An operation that can raise returns \<open>Inl\<close> of the exception instead of a value. An
  exception is an \<^verbatim>\<open>OSError\<close>, given by its error number, or the
  \<^verbatim>\<open>ValueError\<close> of an operation on a closed stream.
\<close>

type_synonym path = string

datatype exn = EACCES | ENOENT | EROFS | ENOSPC | EIO | EPIPE | ValueError

record world =
  files :: "path \<rightharpoonup> string"
  stdout :: string
  open_files :: "path list"
  environ :: "string \<rightharpoonup> string"
  spawned :: "string list"
  open_fault :: "path \<Rightarrow> exn option"
  write_fault :: "(nat \<times> exn) option"
  stdout_fault :: "(nat \<times> exn) option"

type_synonym 'a io = "world \<Rightarrow> (exn + 'a) \<times> world"

text \<open>
  Statements in sequence: when the first raises, the rest does not run and the exception
  is the result; otherwise the rest runs in the world the first has left.
  \<open>io_return\<close> is \<^verbatim>\<open>return\<close>.
\<close>

definition io_bind :: "'a io \<Rightarrow> ('a \<Rightarrow> 'b io) \<Rightarrow> 'b io" where
  "io_bind m k w =
     (case m w of
        (Inl e, w1) \<Rightarrow> (Inl e, w1)
      | (Inr x, w1) \<Rightarrow> k x w1)"

definition io_return :: "'a \<Rightarrow> 'a io" where
  "io_return x w = (Inr x, w)"

text \<open>
  \<^verbatim>\<open>open(p, 'w')\<close>: raises without touching anything when the path cannot be opened
  for writing; otherwise creates the file, or truncates the one that is there, and
  returns a handle on it. A handle is identified by its path.
\<close>

definition open_w :: "path \<Rightarrow> path io" where
  "open_w p w =
     (case open_fault w p of
        Some e \<Rightarrow> (Inl e, w)
      | None \<Rightarrow> (Inr p, w\<lparr>files := (files w)(p \<mapsto> []), open_files := p # open_files w\<rparr>))"

text \<open>
  \<^verbatim>\<open>f.write(d)\<close>: appends \<open>d\<close> to the file behind the handle and returns the number
  of characters written. When the device takes only part of \<open>d\<close>, that part reaches the
  file and the error is raised. (The model writes through: it does not tell an error
  raised by \<^verbatim>\<open>write\<close> from one raised when the buffer is flushed as the handle is
  closed; both leave the \<^verbatim>\<open>with\<close> block as the same exception.)
\<close>

definition file_write :: "path \<Rightarrow> string \<Rightarrow> nat io" where
  "file_write f d w =
     (let old = (case files w f of None \<Rightarrow> [] | Some c \<Rightarrow> c) in
      case write_fault w of
        None \<Rightarrow> (Inr (length d), w\<lparr>files := (files w)(f \<mapsto> old @ d)\<rparr>)
      | Some (n, e) \<Rightarrow>
          if length d \<le> n
          then (Inr (length d),
                w\<lparr>files := (files w)(f \<mapsto> old @ d), write_fault := Some (n - length d, e)\<rparr>)
          else (Inl e,
                w\<lparr>files := (files w)(f \<mapsto> old @ take n d), write_fault := Some (0, e)\<rparr>))"

definition file_close :: "path \<Rightarrow> world \<Rightarrow> world" where
  "file_close f w = w\<lparr>open_files := remove1 f (open_files w)\<rparr>"

text \<open>
  \<^verbatim>\<open>with open(p, 'w') as f: body\<close>: when the open raises, the body does not run.
  Otherwise the body runs with the handle, the handle is closed whether the body
  returned or raised, and the body's result (value or exception) is the block's.
\<close>

definition with_open_w :: "path \<Rightarrow> (path \<Rightarrow> 'a io) \<Rightarrow> 'a io" where
  "with_open_w p body w =
     (case open_w p w of
        (Inl e, w1) \<Rightarrow> (Inl e, w1)
      | (Inr f, w1) \<Rightarrow> (case body f w1 of (r, w2) \<Rightarrow> (r, file_close f w2)))"

text \<open>
  \<^verbatim>\<open>print(s)\<close>: writes \<open>s\<close> and a newline to standard output. When the stream
  takes only part of the text, that part is written and the exception is raised.
\<close>

definition py_print :: "string \<Rightarrow> unit io" where
  "py_print s w =
     (let t = s @ ''\<newline>'' in
      case stdout_fault w of
        None \<Rightarrow> (Inr (), w\<lparr>stdout := stdout w @ t\<rparr>)
      | Some (n, e) \<Rightarrow>
          if length t \<le> n
          then (Inr (), w\<lparr>stdout := stdout w @ t, stdout_fault := Some (n - length t, e)\<rparr>)
          else (Inl e, w\<lparr>stdout := stdout w @ take n t, stdout_fault := Some (0, e)\<rparr>))"

section \<open>The script\<close>

text \<open>The literal bound to \<^verbatim>\<open>svg_content\<close>, one source line per line.\<close>

definition svg_content :: string where
  \<open>svg_content =
   ''<?xml version="1.0" encoding="UTF-8"?>\<newline>'' @
   ''<svg width="1024" height="1024" viewBox="0 0 1024 1024" xmlns="http://www.w3.org/2000/svg">\<newline>'' @
   ''    <defs>\<newline>'' @
   ''        <linearGradient id="grad1" x1="0%" y1="0%" x2="100%" y2="100%">\<newline>'' @
   ''            <stop offset="0%" style="stop-color:#FF6B9D;stop-opacity:1" />\<newline>'' @
   ''            <stop offset="50%" style="stop-color:#C4E8C7;stop-opacity:1" />\<newline>'' @
   ''            <stop offset="100%" style="stop-color:#FFD93D;stop-opacity:1" />\<newline>'' @
   ''        </linearGradient>\<newline>'' @
   ''    </defs>\<newline>'' @
   ''    <rect width="1024" height="1024" rx="180" ry="180" fill="url(#grad1)"/>\<newline>'' @
   ''    \<newline>'' @
   ''    <!-- Art palette icon -->\<newline>'' @
   ''    <circle cx="512" cy="400" r="80" fill="white" opacity="0.9"/>\<newline>'' @
   ''    <circle cx="480" cy="380" r="25" fill="#FF6B9D"/>\<newline>'' @
   ''    <circle cx="544" cy="380" r="25" fill="#C4E8C7"/>\<newline>'' @
   ''    <circle cx="512" cy="420" r="25" fill="#FFD93D"/>\<newline>'' @
   ''    \<newline>'' @
   ''    <!-- Brush -->\<newline>'' @
   ''    <rect x="620" y="350" width="8" height="60" fill="#8B4513" rx="4"/>\<newline>'' @
   ''    <path d="M624 350 Q628 340 632 350 Q628 360 624 350" fill="#FF6B9D"/>\<newline>'' @
   ''    \<newline>'' @
   ''    <!-- Stars around -->\<newline>'' @
   ''    <g fill="white" opacity="0.8">\<newline>'' @
   ''        <polygon points="200,200 210,230 240,230 215,245 225,275 200,260 175,275 185,245 160,230 190,230" />\<newline>'' @
   ''        <polygon points="800,180 810,210 840,210 815,225 825,255 800,240 775,255 785,225 760,210 790,210" />\<newline>'' @
   ''        <polygon points="180,800 190,830 220,830 195,845 205,875 180,860 155,875 165,845 140,830 170,830" />\<newline>'' @
   ''        <polygon points="850,750 860,780 890,780 865,795 875,825 850,810 825,825 835,795 810,780 840,780" />\<newline>'' @
   ''    </g>\<newline>'' @
   ''    \<newline>'' @
   ''    <!-- App name -->\<newline>'' @
   ''    <text x="512" y="600" font-family="Arial, sans-serif" font-size="120" font-weight="bold" \<newline>'' @
   ''          text-anchor="middle" fill="white">Joanie</text>\<newline>'' @
   ''    \<newline>'' @
   ''    <!-- Subtitle -->\<newline>'' @
   ''    <text x="512" y="680" font-family="Arial, sans-serif" font-size="40" \<newline>'' @
   ''          text-anchor="middle" fill="white" opacity="0.9">Artwork</text>\<newline>'' @
   ''</svg>''\<close>

text \<open>
  \<^verbatim>\<open>create_app_icon()\<close>: writes the literal to \<^verbatim>\<open>/tmp/joanie_icon.svg\<close> inside the
  \<^verbatim>\<open>with\<close> block, then makes six \<^verbatim>\<open>print\<close> calls and returns \<^verbatim>\<open>True\<close>.
  There is no \<^verbatim>\<open>try\<close>: an exception of the block or of a \<^verbatim>\<open>print\<close> ends the
  function.
\<close>

definition create_app_icon :: "bool io" where
  "create_app_icon =
     io_bind (with_open_w ''/tmp/joanie_icon.svg'' (\<lambda>f. file_write f svg_content)) (\<lambda>_.
     io_bind (py_print ''Created SVG icon at /tmp/joanie_icon.svg'') (\<lambda>_.
     io_bind (py_print ''SVG content created successfully!'') (\<lambda>_.
     io_bind (py_print ''\<newline>To create PNG from SVG, you can use:'') (\<lambda>_.
     io_bind (py_print ''1. Online converter (recommended for this step)'') (\<lambda>_.
     io_bind (py_print ''2. Install ImageMagick: brew install imagemagick'') (\<lambda>_.
     io_bind (py_print ''3. Then run: convert /tmp/joanie_icon.svg /tmp/joanie_icon.png'') (\<lambda>_.
     io_return True)))))))"

text \<open>
  The program entry: \<^verbatim>\<open>if __name__ == "__main__": create_app_icon()\<close>. The value
  returned is dropped; an exception is not handled and ends the program.
\<close>

definition main :: "unit io" where
  "main = io_bind create_app_icon (\<lambda>_. io_return ())"

section \<open>Observations used in the statements\<close>

abbreviation icon_path :: path where
  "icon_path \<equiv> ''/tmp/joanie_icon.svg''"

text \<open>
  The lines of a text, as \<^verbatim>\<open>str.splitlines\<close> gives them for the terminator
  \<^verbatim>\<open>\n\<close>: each newline ends a line, and a last line without newline counts when it
  is not empty. The first argument is the line being read, reversed.
\<close>

fun splitlines_from :: "string \<Rightarrow> string \<Rightarrow> string list" where
  "splitlines_from cur [] = (if cur = [] then [] else [rev cur])"
| "splitlines_from cur (c # cs) =
     (if c = CHR ''\<newline>'' then rev cur # splitlines_from [] cs
      else splitlines_from (c # cur) cs)"

definition splitlines :: "string \<Rightarrow> string list" where
  "splitlines s = splitlines_from [] s"

text \<open>Worlds used as concrete inputs.\<close>

definition fresh_world :: world where
  "fresh_world =
     \<lparr>files = Map.empty, stdout = [], open_files = [], environ = Map.empty, spawned = [],
      open_fault = (\<lambda>_. None), write_fault = None, stdout_fault = None\<rparr>"

definition readonly_world :: world where
  "readonly_world =
     \<lparr>files = [icon_path \<mapsto> ''old icon''], stdout = [], open_files = [],
      environ = [''HOME'' \<mapsto> ''/root''], spawned = [],
      open_fault = (\<lambda>_. Some EACCES), write_fault = None, stdout_fault = None\<rparr>"

definition full_disk_world :: world where
  "full_disk_world =
     \<lparr>files = Map.empty, stdout = [], open_files = [], environ = Map.empty, spawned = [],
      open_fault = (\<lambda>_. None), write_fault = Some (0, ENOSPC), stdout_fault = None\<rparr>"

definition failing_device_world :: world where
  "failing_device_world =
     \<lparr>files = [icon_path \<mapsto> ''old icon''], stdout = ''earlier output'', open_files = [],
      environ = Map.empty, spawned = [],
      open_fault = (\<lambda>_. None), write_fault = Some (5, EIO), stdout_fault = None\<rparr>"

text \<open>
  The text that the six \<^verbatim>\<open>print\<close> calls of a successful run add to standard
  output, one call per line of the term.
\<close>

abbreviation console_text :: string where
  "console_text \<equiv>
     ''Created SVG icon at /tmp/joanie_icon.svg\<newline>'' @
     ''SVG content created successfully!\<newline>'' @
     ''\<newline>To create PNG from SVG, you can use:\<newline>'' @
     ''1. Online converter (recommended for this step)\<newline>'' @
     ''2. Install ImageMagick: brew install imagemagick\<newline>'' @
     ''3. Then run: convert /tmp/joanie_icon.svg /tmp/joanie_icon.png\<newline>''"

definition busy_world :: world where
  "busy_world =
     \<lparr>files = [icon_path \<mapsto> ''old icon'', ''/tmp/notes.txt'' \<mapsto> ''keep''],
      stdout = ''earlier output'', open_files = [''/tmp/notes.txt''],
      environ = [''HOME'' \<mapsto> ''/root''], spawned = [''ls''],
      open_fault = (\<lambda>_. None), write_fault = Some (4096, ENOSPC),
      stdout_fault = Some (1000, EPIPE)\<rparr>"


text \<open>
  The \<^verbatim>\<open>print\<close> calls of a list of texts, one after the other. The six calls of
  \<open>create_app_icon\<close> are \<open>print_all\<close> of their six arguments (lemma
  \<open>create_app_icon_print_all\<close>); the list form is there for induction.
\<close>

fun print_all :: "string list \<Rightarrow> unit io" where
  "print_all [] = io_return ()"
| "print_all (s # ss) = io_bind (py_print s) (\<lambda>_. print_all ss)"

text \<open>
  The arguments of the six \<^verbatim>\<open>print\<close> calls, in order, and the \<^verbatim>\<open>with\<close>
  block that writes the file, as they stand in \<open>create_app_icon\<close>.
\<close>

abbreviation status_lines :: "string list" where
  "status_lines \<equiv>
     [''Created SVG icon at /tmp/joanie_icon.svg'',
      ''SVG content created successfully!'',
      ''\<newline>To create PNG from SVG, you can use:'',
      ''1. Online converter (recommended for this step)'',
      ''2. Install ImageMagick: brew install imagemagick'',
      ''3. Then run: convert /tmp/joanie_icon.svg /tmp/joanie_icon.png'']"

abbreviation write_block :: "nat io" where
  "write_block \<equiv> with_open_w icon_path (\<lambda>f. file_write f svg_content)"

section \<open>Facts about the literal\<close>

lemma svg_content_length: "length svg_content = 1859"
  by (simp add: svg_content_def)

lemma svg_content_ascii: "list_all (\<lambda>c. of_char c < (128::nat)) svg_content"
  by (simp add: svg_content_def)

lemma svg_content_prefix: \<open>prefix ''<?xml version="1.0" encoding="UTF-8"?>'' svg_content\<close>
  by (simp add: svg_content_def)

lemma svg_content_Joanie: "sublist ''Joanie'' svg_content"
  by (simp add: svg_content_def sublist_code(3))

section \<open>Sequencing and printing\<close>

lemma io_bind_assoc: "io_bind (io_bind m f) g = io_bind m (\<lambda>x. io_bind (f x) g)"
  by (rule ext) (simp add: io_bind_def split: prod.splits sum.splits)

lemma io_bind_return: "io_bind (io_return x) k = k x"
  by (rule ext) (simp add: io_bind_def io_return_def)

lemma create_app_icon_print_all:
  "create_app_icon =
     io_bind (with_open_w icon_path (\<lambda>f. file_write f svg_content)) (\<lambda>_.
     io_bind (print_all
       [''Created SVG icon at /tmp/joanie_icon.svg'',
        ''SVG content created successfully!'',
        ''\<newline>To create PNG from SVG, you can use:'',
        ''1. Online converter (recommended for this step)'',
        ''2. Install ImageMagick: brew install imagemagick'',
        ''3. Then run: convert /tmp/joanie_icon.svg /tmp/joanie_icon.png'']) (\<lambda>_.
     io_return True))"
  by (simp only: create_app_icon_def print_all.simps io_bind_assoc io_bind_return)

lemma print_all_result:
  "fst (print_all ss w) =
     (case stdout_fault w of
        None \<Rightarrow> Inr ()
      | Some (n, e) \<Rightarrow>
          if length (concat (map (\<lambda>s. s @ ''\<newline>'') ss)) \<le> n then Inr () else Inl e)"
proof (induction ss arbitrary: w)
  case Nil
  then show ?case by (simp add: io_return_def split: option.splits)
next
  case (Cons s ss)
  show ?case
  proof (cases "stdout_fault w")
    case None
    then show ?thesis by (simp add: io_bind_def py_print_def Cons.IH)
  next
    case (Some ne)
    obtain n e where ne: "ne = (n, e)" by (cases ne)
    show ?thesis
    proof (cases "Suc (length s) \<le> n")
      case True
      with Some ne show ?thesis by (auto simp: io_bind_def py_print_def Cons.IH)
    next
      case False
      with Some ne show ?thesis by (simp add: io_bind_def py_print_def)
    qed
  qed
qed

lemma take_append_fits: "length t \<le> n \<Longrightarrow> take n (t @ r) = t @ take (n - length t) r"
  by simp

lemma print_all_stdout:
  "stdout (snd (print_all ss w)) =
     stdout w @
     (case stdout_fault w of
        None \<Rightarrow> concat (map (\<lambda>s. s @ ''\<newline>'') ss)
      | Some (n, e) \<Rightarrow> take n (concat (map (\<lambda>s. s @ ''\<newline>'') ss)))"
proof (induction ss arbitrary: w)
  case Nil
  then show ?case by (simp add: io_return_def split: option.splits)
next
  case (Cons s ss)
  let ?t = "s @ ''\<newline>''"
  let ?R = "concat (map (\<lambda>s. s @ ''\<newline>'') ss)"
  show ?case
  proof (cases "stdout_fault w")
    case None
    then show ?thesis by (simp add: io_bind_def py_print_def Cons.IH)
  next
    case (Some ne)
    obtain n e where ne: "ne = (n, e)" by (cases ne)
    show ?thesis
    proof (cases "length ?t \<le> n")
      case True
      then have tk: "take n (?t @ ?R) = ?t @ take (n - length ?t) ?R"
        by (rule take_append_fits)
      from True Some ne
      have "stdout (snd (print_all (s # ss) w)) = (stdout w @ ?t) @ take (n - length ?t) ?R"
        by (simp add: io_bind_def py_print_def Cons.IH)
      with tk Some ne show ?thesis by simp
    next
      case False
      then have tk: "take n (?t @ ?R) = take n ?t" by simp
      from False Some ne
      have "stdout (snd (print_all (s # ss) w)) = stdout w @ take n ?t"
        by (simp add: io_bind_def py_print_def)
      with tk Some ne show ?thesis by simp
    qed
  qed
qed

lemma py_print_frame:
  "files (snd (py_print s w)) = files w \<and>
   open_files (snd (py_print s w)) = open_files w \<and>
   environ (snd (py_print s w)) = environ w \<and>
   spawned (snd (py_print s w)) = spawned w \<and>
   open_fault (snd (py_print s w)) = open_fault w \<and>
   write_fault (snd (py_print s w)) = write_fault w"
  by (simp add: py_print_def Let_def split: option.splits prod.splits)

lemma print_all_frame:
  "files (snd (print_all ss w)) = files w \<and>
   open_files (snd (print_all ss w)) = open_files w \<and>
   environ (snd (print_all ss w)) = environ w \<and>
   spawned (snd (print_all ss w)) = spawned w \<and>
   open_fault (snd (print_all ss w)) = open_fault w \<and>
   write_fault (snd (print_all ss w)) = write_fault w"
proof (induction ss arbitrary: w)
  case Nil
  then show ?case by (simp add: io_return_def)
next
  case (Cons s ss)
  obtain r w1 where p: "py_print s w = (r, w1)" by (cases "py_print s w")
  from py_print_frame [of s w] p
  have f: "files w1 = files w \<and> open_files w1 = open_files w \<and> environ w1 = environ w \<and>
      spawned w1 = spawned w \<and> open_fault w1 = open_fault w \<and> write_fault w1 = write_fault w"
    by simp
  show ?case
  proof (cases r)
    case (Inl e)
    with p f show ?thesis by (simp add: io_bind_def)
  next
    case (Inr u)
    with p f Cons.IH [of w1] show ?thesis by (simp add: io_bind_def)
  qed
qed

lemma py_print_environ_update:
  "py_print s (w\<lparr>environ := E\<rparr>) = (fst (py_print s w), (snd (py_print s w))\<lparr>environ := E\<rparr>)"
  by (simp add: py_print_def Let_def split: option.splits prod.splits)

lemma print_all_environ_update:
  "print_all ss (w\<lparr>environ := E\<rparr>) =
     (fst (print_all ss w), (snd (print_all ss w))\<lparr>environ := E\<rparr>)"
proof (induction ss arbitrary: w)
  case Nil
  then show ?case by (simp add: io_return_def)
next
  case (Cons s ss)
  obtain r w1 where p: "py_print s w = (r, w1)" by (cases "py_print s w")
  with py_print_environ_update [where s = s and w = w and E = E]
  have q: "py_print s (w\<lparr>environ := E\<rparr>) = (r, w1\<lparr>environ := E\<rparr>)" by simp
  show ?case
  proof (cases r)
    case (Inl e)
    with p q show ?thesis by (simp add: io_bind_def)
  next
    case (Inr u)
    with p q Cons.IH [of w1] show ?thesis by (simp add: io_bind_def)
  qed
qed

section \<open>What a run returns and leaves behind\<close>

text \<open>
  The result of the \<^verbatim>\<open>with\<close> block and of \<open>create_app_icon\<close>, component by
  component, along the paths through the function: the open raises, the write raises,
  a \<^verbatim>\<open>print\<close> raises, everything succeeds.
\<close>

lemma print_all_stdout_fault:
  "stdout_fault (snd (print_all ss w)) =
     (case stdout_fault w of
        None \<Rightarrow> None
      | Some (n, e) \<Rightarrow> Some (n - length (concat (map (\<lambda>s. s @ ''\<newline>'') ss)), e))"
proof (induction ss arbitrary: w)
  case Nil
  then show ?case by (simp add: io_return_def split: option.splits)
next
  case (Cons s ss)
  show ?case
  proof (cases "stdout_fault w")
    case None
    then show ?thesis by (simp add: io_bind_def py_print_def Cons.IH)
  next
    case (Some ne)
    obtain n e where ne: "ne = (n, e)" by (cases ne)
    show ?thesis
    proof (cases "Suc (length s) \<le> n")
      case True
      with Some ne show ?thesis by (simp add: io_bind_def py_print_def Cons.IH)
    next
      case False
      with Some ne show ?thesis by (simp add: io_bind_def py_print_def)
    qed
  qed
qed

declare print_all.simps [simp del]

lemma status_lines_text: "concat (map (\<lambda>s. s @ ''\<newline>'') status_lines) = console_text"
  by simp

lemma console_text_length: "length console_text = 273"
  by simp

lemmas block_defs = with_open_w_def open_w_def file_write_def file_close_def Let_def

lemma write_block_result:
  "fst (write_block w) =
     (case open_fault w icon_path of
        Some e \<Rightarrow> Inl e
      | None \<Rightarrow>
          (case write_fault w of
             None \<Rightarrow> Inr (length svg_content)
           | Some (n, e) \<Rightarrow> if length svg_content \<le> n then Inr (length svg_content) else Inl e))"
  by (simp add: block_defs split: option.splits prod.splits)

lemma write_block_files:
  "files (snd (write_block w)) =
     (case open_fault w icon_path of
        Some e \<Rightarrow> files w
      | None \<Rightarrow>
          (files w)(icon_path \<mapsto>
            (case write_fault w of None \<Rightarrow> svg_content | Some (n, e) \<Rightarrow> take n svg_content)))"
  by (simp add: block_defs split: option.splits prod.splits)

lemma write_block_frame:
  "stdout (snd (write_block w)) = stdout w \<and>
   stdout_fault (snd (write_block w)) = stdout_fault w \<and>
   open_files (snd (write_block w)) = open_files w \<and>
   environ (snd (write_block w)) = environ w \<and>
   spawned (snd (write_block w)) = spawned w \<and>
   open_fault (snd (write_block w)) = open_fault w"
  by (simp add: block_defs split: option.splits prod.splits)

lemma write_block_write_fault:
  "write_fault (snd (write_block w)) =
     (case open_fault w icon_path of
        Some e \<Rightarrow> write_fault w
      | None \<Rightarrow>
          (case write_fault w of
             None \<Rightarrow> None
           | Some (n, e) \<Rightarrow>
               if length svg_content \<le> n then Some (n - length svg_content, e) else Some (0, e)))"
  by (simp add: block_defs split: option.splits prod.splits)

lemma write_block_open_fails: "open_fault w icon_path = Some e \<Longrightarrow> write_block w = (Inl e, w)"
  by (simp add: block_defs)

lemma write_block_environ_update:
  "write_block (w\<lparr>environ := E\<rparr>) = (fst (write_block w), (snd (write_block w))\<lparr>environ := E\<rparr>)"
  by (simp add: block_defs split: option.splits prod.splits)

lemma create_app_icon_unfold:
  "create_app_icon w =
     (case fst (write_block w) of
        Inl e \<Rightarrow> (Inl e, snd (write_block w))
      | Inr k \<Rightarrow>
          (case fst (print_all status_lines (snd (write_block w))) of
             Inl e \<Rightarrow> (Inl e, snd (print_all status_lines (snd (write_block w))))
           | Inr u \<Rightarrow> (Inr True, snd (print_all status_lines (snd (write_block w))))))"
proof -
  obtain r w1 where a: "write_block w = (r, w1)" by (cases "write_block w")
  obtain q w2 where b: "print_all status_lines w1 = (q, w2)"
    by (cases "print_all status_lines w1")
  show ?thesis
    by (simp only: create_app_icon_print_all)
       (simp add: io_bind_def io_return_def a b split: sum.splits del: print_all.simps)
qed

lemma create_app_icon_result:
  "fst (create_app_icon w) =
     (case fst (write_block w) of
        Inl e \<Rightarrow> Inl e
      | Inr k \<Rightarrow>
          (case stdout_fault w of
             None \<Rightarrow> Inr True
           | Some (n, e) \<Rightarrow> if length console_text \<le> n then Inr True else Inl e))"
  by (simp add: create_app_icon_unfold print_all_result write_block_frame
      split: sum.splits option.splits)

lemma create_app_icon_files: "files (snd (create_app_icon w)) = files (snd (write_block w))"
  by (simp add: create_app_icon_unfold print_all_frame split: sum.splits)

lemma create_app_icon_stdout:
  "stdout (snd (create_app_icon w)) =
     (case fst (write_block w) of
        Inl e \<Rightarrow> stdout w
      | Inr k \<Rightarrow>
          stdout w @
          (case stdout_fault w of
             None \<Rightarrow> console_text
           | Some (n, e) \<Rightarrow> take n console_text))"
  by (simp add: create_app_icon_unfold print_all_stdout write_block_frame
      split: sum.splits option.splits)

lemma create_app_icon_frame:
  "open_files (snd (create_app_icon w)) = open_files w \<and>
   environ (snd (create_app_icon w)) = environ w \<and>
   spawned (snd (create_app_icon w)) = spawned w \<and>
   open_fault (snd (create_app_icon w)) = open_fault w"
  by (simp add: create_app_icon_unfold print_all_frame write_block_frame split: sum.splits)

lemma create_app_icon_write_fault:
  "write_fault (snd (create_app_icon w)) = write_fault (snd (write_block w))"
  by (simp add: create_app_icon_unfold print_all_frame split: sum.splits)

lemma create_app_icon_stdout_fault:
  "stdout_fault (snd (create_app_icon w)) =
     (case fst (write_block w) of
        Inl e \<Rightarrow> stdout_fault w
      | Inr k \<Rightarrow>
          (case stdout_fault w of
             None \<Rightarrow> None
           | Some (n, e) \<Rightarrow> Some (n - length console_text, e)))"
  by (simp add: create_app_icon_unfold print_all_stdout_fault write_block_frame
      split: sum.splits option.splits)

lemma create_app_icon_environ_update:
  "create_app_icon (w\<lparr>environ := E\<rparr>) =
     (fst (create_app_icon w), (snd (create_app_icon w))\<lparr>environ := E\<rparr>)"
  by (simp add: create_app_icon_unfold [of "w\<lparr>environ := E\<rparr>"] create_app_icon_unfold [of w]
      write_block_environ_update print_all_environ_update split: sum.splits)

lemma write_block_Inr:
  assumes "fst (write_block w) = Inr k"
  shows "files (snd (write_block w)) = (files w)(icon_path \<mapsto> svg_content)"
proof -
  from assms have op: "open_fault w icon_path = None"
    by (simp add: write_block_result split: option.splits)
  show ?thesis
  proof (cases "write_fault w")
    case None
    with op show ?thesis by (simp add: write_block_files)
  next
    case (Some ne)
    obtain n e where ne: "ne = (n, e)" by (cases ne)
    with assms op Some have "length svg_content \<le> n"
      by (simp add: write_block_result split: if_splits)
    with op Some ne show ?thesis by (simp add: write_block_files)
  qed
qed

lemma create_app_icon_Inr:
  assumes "fst (create_app_icon w) = Inr b"
  shows "b = True"
    and "\<exists>k. fst (write_block w) = Inr k"
    and "stdout (snd (create_app_icon w)) = stdout w @ console_text"
    and "files (snd (create_app_icon w)) = (files w)(icon_path \<mapsto> svg_content)"
proof -
  from assms obtain k where k: "fst (write_block w) = Inr k"
    by (cases "fst (write_block w)") (simp_all add: create_app_icon_result)
  then show "\<exists>k. fst (write_block w) = Inr k" ..
  from assms k show "b = True"
    by (auto simp: create_app_icon_result split: option.splits if_splits)
  from k show "files (snd (create_app_icon w)) = (files w)(icon_path \<mapsto> svg_content)"
    by (simp only: create_app_icon_files write_block_Inr)
  show "stdout (snd (create_app_icon w)) = stdout w @ console_text"
  proof (cases "stdout_fault w")
    case None
    with k show ?thesis by (simp add: create_app_icon_stdout)
  next
    case (Some ne)
    obtain n e where ne: "ne = (n, e)" by (cases ne)
    with assms k Some have "length console_text \<le> n"
      by (simp add: create_app_icon_result split: if_splits)
    then have "take n console_text = console_text" by (rule take_all)
    with k Some ne show ?thesis
      by (simp only: create_app_icon_stdout sum.case option.case prod.case)
  qed
qed

lemma main_result: "fst (main w) = (case fst (create_app_icon w) of Inl e \<Rightarrow> Inl e | Inr b \<Rightarrow> Inr ())"
  by (simp add: main_def io_bind_def io_return_def split: prod.splits sum.splits)

lemma main_world: "snd (main w) = snd (create_app_icon w)"
  by (simp add: main_def io_bind_def io_return_def split: prod.splits sum.splits)

lemma console_text_lines:
  "splitlines console_text =
     [''Created SVG icon at /tmp/joanie_icon.svg'',
      ''SVG content created successfully!'',
      '''',
      ''To create PNG from SVG, you can use:'',
      ''1. Online converter (recommended for this step)'',
      ''2. Install ImageMagick: brew install imagemagick'',
      ''3. Then run: convert /tmp/joanie_icon.svg /tmp/joanie_icon.png'']"
  by (simp add: splitlines_def)

lemma fresh_world_succeeds: "fst (create_app_icon fresh_world) = Inr True"
  by (simp add: create_app_icon_result write_block_result fresh_world_def)

lemma busy_world_succeeds: "fst (create_app_icon busy_world) = Inr True"
  by (simp add: create_app_icon_result write_block_result busy_world_def svg_content_length)

lemma readonly_world_fails: "fst (create_app_icon readonly_world) = Inl EACCES"
  by (simp add: create_app_icon_result write_block_result readonly_world_def)

lemma full_disk_world_fails: "fst (create_app_icon full_disk_world) = Inl ENOSPC"
  by (simp add: create_app_icon_result write_block_result full_disk_world_def svg_content_length)

lemma failing_device_world_fails: "fst (create_app_icon failing_device_world) = Inl EIO"
  by (simp add: create_app_icon_result write_block_result failing_device_world_def
      svg_content_length)


lemma busy_world_succeeds_again:
  "fst (create_app_icon (snd (create_app_icon busy_world))) = Inr True"
proof -
  let ?w1 = "snd (create_app_icon busy_world)"
  have b: "write_fault busy_world = Some (4096, ENOSPC)" "open_fault busy_world icon_path = None"
    "stdout_fault busy_world = Some (1000, EPIPE)"
    by (simp_all add: busy_world_def)
  then have k: "fst (write_block busy_world) = Inr (length svg_content)"
    by (simp add: write_block_result svg_content_length)
  have o: "open_fault ?w1 icon_path = None"
    by (simp add: create_app_icon_frame b)
  from b have f: "write_fault ?w1 = Some (4096 - length svg_content, ENOSPC)"
    by (simp add: create_app_icon_write_fault write_block_write_fault svg_content_length)
  from b k have s: "stdout_fault ?w1 = Some (1000 - length console_text, EPIPE)"
    by (simp only: create_app_icon_stdout_fault sum.case option.case prod.case)
  from o f have "fst (write_block ?w1) = Inr (length svg_content)"
    by (simp add: write_block_result [of ?w1] svg_content_length)
  with s show ?thesis
    by (simp add: create_app_icon_result [of ?w1])
qed

section \<open>Properties\<close>

text \<open>
  C1. A run that returns normally leaves a file at \<^verbatim>\<open>/tmp/joanie_icon.svg\<close> whose
  contents are exactly the literal \<open>svg_content\<close>. (The literal is ASCII, lemma
  \<open>svg_content_ascii\<close>, so the bytes in the file are its characters.)
\<close>

theorem successful_run_writes_template:
  assumes "fst (create_app_icon w) = Inr b"
  shows "files (snd (create_app_icon w)) icon_path = Some svg_content"
proof -
  from assms have "files (snd (create_app_icon w)) = (files w)(icon_path \<mapsto> svg_content)"
    by (rule create_app_icon_Inr(4))
  then show ?thesis by simp
qed

theorem successful_run_writes_template_witness:
  "fst (create_app_icon fresh_world) = Inr True \<and>
   files (snd (create_app_icon fresh_world)) icon_path = Some svg_content"
  by (rule conjI [OF fresh_world_succeeds successful_run_writes_template [OF fresh_world_succeeds]])

text \<open>
  C2, as stated: when the write to the target fails, no file is created and none is
  modified. This fails when the error comes after the open: with no file at the path
  and a device that takes no more data, the open creates the file, the write raises,
  and an empty file is left.
\<close>

theorem write_error_creates_empty_file:
  "fst (create_app_icon full_disk_world) = Inl ENOSPC \<and>
   files full_disk_world icon_path = None \<and>
   files (snd (create_app_icon full_disk_world)) icon_path = Some []"
proof -
  have "files (snd (create_app_icon full_disk_world)) icon_path = Some []"
    by (simp add: create_app_icon_files write_block_files full_disk_world_def)
  moreover have "files full_disk_world icon_path = None"
    by (simp add: full_disk_world_def)
  ultimately show ?thesis using full_disk_world_fails by simp
qed

text \<open>
  C2, amended. When the \<^verbatim>\<open>with\<close> block raises, the run ends with that exception.
  When it was the open that raised, nothing has changed at all. When the open
  succeeded, the file at \<^verbatim>\<open>/tmp/joanie_icon.svg\<close> has been created or truncated
  and holds a proper prefix of the literal, and every other file is as it was.
\<close>

theorem failed_run_files:
  assumes "fst (write_block w) = Inl e"
  shows "fst (create_app_icon w) = Inl e \<and>
         (isl (fst (open_w icon_path w)) \<longrightarrow> snd (create_app_icon w) = w) \<and>
         (\<not> isl (fst (open_w icon_path w)) \<longrightarrow>
            (\<exists>n<length svg_content.
               files (snd (create_app_icon w)) = (files w)(icon_path \<mapsto> take n svg_content)))"
proof -
  from assms have r: "fst (create_app_icon w) = Inl e"
    by (simp add: create_app_icon_result)
  show ?thesis
  proof (cases "open_fault w icon_path")
    case (Some e')
    then have "write_block w = (Inl e', w)" by (rule write_block_open_fails)
    then have "snd (create_app_icon w) = w" by (simp add: create_app_icon_unfold)
    moreover from Some have "isl (fst (open_w icon_path w))" by (simp add: open_w_def)
    ultimately show ?thesis using r by simp
  next
    case None
    with assms obtain n where wf: "write_fault w = Some (n, e)" and n: "n < length svg_content"
      by (auto simp: write_block_result split: option.splits if_splits)
    from None have "\<not> isl (fst (open_w icon_path w))" by (simp add: open_w_def)
    moreover from None wf
    have "files (snd (create_app_icon w)) = (files w)(icon_path \<mapsto> take n svg_content)"
      by (simp add: create_app_icon_files write_block_files)
    ultimately show ?thesis using n r by blast
  qed
qed

theorem failed_run_files_witness:
  "fst (write_block readonly_world) = Inl EACCES \<and>
   isl (fst (open_w icon_path readonly_world)) \<and>
   fst (create_app_icon readonly_world) = Inl EACCES \<and>
   snd (create_app_icon readonly_world) = readonly_world \<and>
   fst (write_block failing_device_world) = Inl EIO \<and>
   \<not> isl (fst (open_w icon_path failing_device_world)) \<and>
   (\<exists>n<length svg_content.
      files (snd (create_app_icon failing_device_world)) =
        (files failing_device_world)(icon_path \<mapsto> take n svg_content))"
proof -
  have a: "fst (write_block readonly_world) = Inl EACCES"
    by (simp add: write_block_result readonly_world_def)
  have o: "isl (fst (open_w icon_path readonly_world))"
    by (simp add: open_w_def readonly_world_def)
  have b: "fst (write_block failing_device_world) = Inl EIO"
    by (simp add: write_block_result failing_device_world_def svg_content_length)
  have p: "\<not> isl (fst (open_w icon_path failing_device_world))"
    by (simp add: open_w_def failing_device_world_def)
  note r = failed_run_files [OF a]
  note d = failed_run_files [OF b]
  from r have r1: "fst (create_app_icon readonly_world) = Inl EACCES" by (rule conjunct1)
  from r o have r2: "snd (create_app_icon readonly_world) = readonly_world" by (simp only:)
  from d p have d2: "\<exists>n<length svg_content.
      files (snd (create_app_icon failing_device_world)) =
        (files failing_device_world)(icon_path \<mapsto> take n svg_content)"
    by (simp only: simp_thms)
  show ?thesis by (intro conjI) (rule a o r1 r2 b p d2)+
qed

text \<open>
  C3, as stated: the console output of a writable run has exactly three lines. The
  six \<^verbatim>\<open>print\<close> calls write seven: the third argument starts with a newline.
\<close>

theorem console_output_seven_lines:
  "open_fault fresh_world icon_path = None \<and> write_fault fresh_world = None \<and>
   stdout_fault fresh_world = None \<and>
   fst (create_app_icon fresh_world) = Inr True \<and>
   stdout fresh_world = [] \<and>
   length (splitlines (stdout (snd (create_app_icon fresh_world)))) = 7"
proof -
  have e: "stdout fresh_world = []" by (simp add: fresh_world_def)
  have "stdout (snd (create_app_icon fresh_world)) = stdout fresh_world @ console_text"
    using fresh_world_succeeds by (rule create_app_icon_Inr(3))
  with e have s: "stdout (snd (create_app_icon fresh_world)) = console_text"
    by (simp only: append_Nil)
  have l: "length (splitlines (stdout (snd (create_app_icon fresh_world)))) = 7"
    by (simp only: s console_text_lines) simp
  have f: "open_fault fresh_world icon_path = None" "write_fault fresh_world = None"
    "stdout_fault fresh_world = None"
    by (simp_all add: fresh_world_def)
  show ?thesis by (intro conjI) (rule f fresh_world_succeeds e l)+
qed

text \<open>
  C3, amended. When the path can be opened, the device takes the whole literal and
  standard output takes the whole status text, the run returns \<^verbatim>\<open>True\<close>, the file
  starts with the XML declaration and contains \<^verbatim>\<open>Joanie\<close>, and the run adds exactly
  seven lines to standard output, the first being
  \<^verbatim>\<open>Created SVG icon at /tmp/joanie_icon.svg\<close>.
\<close>

theorem writable_run_file_and_console:
  assumes "open_fault w icon_path = None"
    and "\<forall>n e. write_fault w = Some (n, e) \<longrightarrow> length svg_content \<le> n"
    and "\<forall>n e. stdout_fault w = Some (n, e) \<longrightarrow> length console_text \<le> n"
  shows \<open>\<exists>c out.
           fst (create_app_icon w) = Inr True \<and>
           files (snd (create_app_icon w)) icon_path = Some c \<and>
           prefix ''<?xml version="1.0" encoding="UTF-8"?>'' c \<and>
           sublist ''Joanie'' c \<and>
           stdout (snd (create_app_icon w)) = stdout w @ out \<and>
           length (splitlines out) = 7 \<and>
           hd (splitlines out) = ''Created SVG icon at /tmp/joanie_icon.svg'' \<and>
           prefix ''Created SVG icon at'' (hd (splitlines out))\<close>
proof -
  from assms(1,2) have k: "fst (write_block w) = Inr (length svg_content)"
    by (auto simp: write_block_result split: option.splits)
  from assms(3) have "case stdout_fault w of None \<Rightarrow> True | Some (n, e) \<Rightarrow> length console_text \<le> n"
    by (auto split: option.splits)
  with k have ok: "fst (create_app_icon w) = Inr True"
    by (simp only: create_app_icon_result sum.case) (auto split: option.splits)
  then have f: "files (snd (create_app_icon w)) icon_path = Some svg_content"
    by (simp add: create_app_icon_Inr(4))
  from ok have s: "stdout (snd (create_app_icon w)) = stdout w @ console_text"
    by (rule create_app_icon_Inr(3))
  have l: "length (splitlines console_text) = 7"
    by (simp only: console_text_lines) simp
  have h: "hd (splitlines console_text) = ''Created SVG icon at /tmp/joanie_icon.svg''"
    by (simp only: console_text_lines) simp
  have p: "prefix ''Created SVG icon at'' (hd (splitlines console_text))"
    by (simp only: console_text_lines) simp
  from ok f svg_content_prefix svg_content_Joanie s l h p show ?thesis by blast
qed

theorem writable_run_file_and_console_witness:
  \<open>open_fault busy_world icon_path = None \<and>
   write_fault busy_world = Some (4096, ENOSPC) \<and> length svg_content \<le> 4096 \<and>
   stdout_fault busy_world = Some (1000, EPIPE) \<and> length console_text \<le> 1000 \<and>
   (\<exists>c out.
      fst (create_app_icon busy_world) = Inr True \<and>
      files (snd (create_app_icon busy_world)) icon_path = Some c \<and>
      prefix ''<?xml version="1.0" encoding="UTF-8"?>'' c \<and>
      sublist ''Joanie'' c \<and>
      stdout (snd (create_app_icon busy_world)) = stdout busy_world @ out \<and>
      length (splitlines out) = 7 \<and>
      hd (splitlines out) = ''Created SVG icon at /tmp/joanie_icon.svg'' \<and>
      prefix ''Created SVG icon at'' (hd (splitlines out)))\<close>
proof -
  have a: "open_fault busy_world icon_path = None" by (simp add: busy_world_def)
  have b: "write_fault busy_world = Some (4096, ENOSPC)" by (simp add: busy_world_def)
  have c: "length svg_content \<le> 4096" by (simp add: svg_content_length)
  have s: "stdout_fault busy_world = Some (1000, EPIPE)" by (simp add: busy_world_def)
  have t: "length console_text \<le> 1000" by simp
  from b c have d: "\<forall>n e. write_fault busy_world = Some (n, e) \<longrightarrow> length svg_content \<le> n"
    by simp
  from s have u: "\<forall>n e. stdout_fault busy_world = Some (n, e) \<longrightarrow> length console_text \<le> n"
    by simp
  show ?thesis
    by (intro conjI) (rule a b c s t writable_run_file_and_console [OF a d u])+
qed




text \<open>
  C5. An error raised by the open or by the write is the error with which
  \<open>create_app_icon\<close> ends, and the one with which the program ends: nothing handles
  or replaces it.
\<close>

theorem io_error_propagates:
  assumes "fst (open_w icon_path w) = Inl e \<or>
           (\<exists>f w1. open_w icon_path w = (Inr f, w1) \<and> fst (file_write f svg_content w1) = Inl e)"
  shows "fst (create_app_icon w) = Inl e \<and> fst (main w) = Inl e"
proof -
  from assms have "fst (write_block w) = Inl e"
    by (auto simp: block_defs split: option.splits prod.splits if_splits)
  then have "fst (create_app_icon w) = Inl e"
    by (simp add: create_app_icon_result)
  then show ?thesis by (simp add: main_result)
qed

theorem io_error_propagates_witness:
  "fst (open_w icon_path readonly_world) = Inl EACCES \<and>
   fst (create_app_icon readonly_world) = Inl EACCES \<and>
   fst (main readonly_world) = Inl EACCES \<and>
   fst (create_app_icon failing_device_world) = Inl EIO \<and>
   fst (main failing_device_world) = Inl EIO"
proof -
  have a: "fst (open_w icon_path readonly_world) = Inl EACCES"
    by (simp add: open_w_def readonly_world_def)
  have b: "\<exists>f w1. open_w icon_path failing_device_world = (Inr f, w1) \<and>
                  fst (file_write f svg_content w1) = Inl EIO"
    by (simp add: open_w_def file_write_def failing_device_world_def svg_content_length)
  note r = io_error_propagates [OF disjI1 [OF a]]
  note d = io_error_propagates [OF disjI2 [OF b]]
  show ?thesis
    by (intro conjI)
       (rule a r [THEN conjunct1] r [THEN conjunct2] d [THEN conjunct1] d [THEN conjunct2])+
qed

text \<open>
  C6. When two runs in succession both return normally, the files after the second
  run are those after the first: the second run has replaced the file by the same
  contents, the literal.
\<close>

theorem second_run_same_contents:
  assumes "fst (create_app_icon w) = Inr b"
    and "fst (create_app_icon (snd (create_app_icon w))) = Inr c"
  shows "files (snd (create_app_icon (snd (create_app_icon w)))) = files (snd (create_app_icon w)) \<and>
         files (snd (create_app_icon w)) icon_path = Some svg_content"
proof -
  let ?w1 = "snd (create_app_icon w)"
  from assms(1) have f1: "files ?w1 = (files w)(icon_path \<mapsto> svg_content)"
    by (rule create_app_icon_Inr(4))
  from assms(2) have "files (snd (create_app_icon ?w1)) = (files ?w1)(icon_path \<mapsto> svg_content)"
    by (rule create_app_icon_Inr(4))
  with f1 show ?thesis by simp
qed

theorem second_run_same_contents_witness:
  "fst (create_app_icon busy_world) = Inr True \<and>
   fst (create_app_icon (snd (create_app_icon busy_world))) = Inr True \<and>
   files (snd (create_app_icon (snd (create_app_icon busy_world)))) =
     files (snd (create_app_icon busy_world)) \<and>
   files (snd (create_app_icon busy_world)) icon_path = Some svg_content"
proof -
  note t = second_run_same_contents [OF busy_world_succeeds busy_world_succeeds_again]
  show ?thesis
    by (intro conjI)
       (rule busy_world_succeeds busy_world_succeeds_again t [THEN conjunct1] t [THEN conjunct2])+
qed

text \<open>
  C7. Whatever the outcome, a run leaves every file other than
  \<^verbatim>\<open>/tmp/joanie_icon.svg\<close> as it was, only adds to standard output, leaves the
  environment variables, the open handles and the list of child processes unchanged,
  and does not depend on the environment variables: with other variables it gives the
  same result and the same world.
\<close>

theorem only_icon_file_and_stdout_change:
  "(\<forall>p. p \<noteq> icon_path \<longrightarrow> files (snd (create_app_icon w)) p = files w p) \<and>
   (\<exists>out. stdout (snd (create_app_icon w)) = stdout w @ out) \<and>
   open_files (snd (create_app_icon w)) = open_files w \<and>
   environ (snd (create_app_icon w)) = environ w \<and>
   spawned (snd (create_app_icon w)) = spawned w \<and>
   create_app_icon (w\<lparr>environ := E\<rparr>) =
     (fst (create_app_icon w), (snd (create_app_icon w))\<lparr>environ := E\<rparr>)"
proof -
  have f: "\<forall>p. p \<noteq> icon_path \<longrightarrow> files (snd (create_app_icon w)) p = files w p"
    by (simp add: create_app_icon_files write_block_files split: option.splits)
  have s: "\<exists>out. stdout (snd (create_app_icon w)) = stdout w @ out"
    by (cases "fst (write_block w)") (simp_all add: create_app_icon_stdout)
  note fr = create_app_icon_frame [of w]
  from fr have a: "open_files (snd (create_app_icon w)) = open_files w" by (rule conjunct1)
  from fr have b: "environ (snd (create_app_icon w)) = environ w" by simp
  from fr have c: "spawned (snd (create_app_icon w)) = spawned w" by simp
  show ?thesis
    by (intro conjI) (rule f s a b c create_app_icon_environ_update)+
qed

theorem only_icon_file_and_stdout_change_witness:
  "''/tmp/notes.txt'' \<noteq> icon_path \<and>
   files (snd (create_app_icon busy_world)) ''/tmp/notes.txt'' = Some ''keep'' \<and>
   open_files (snd (create_app_icon busy_world)) = [''/tmp/notes.txt''] \<and>
   environ (snd (create_app_icon busy_world)) ''HOME'' = Some ''/root'' \<and>
   spawned (snd (create_app_icon busy_world)) = [''ls'']"
proof -
  have n: "''/tmp/notes.txt'' \<noteq> icon_path" by simp
  have v: "files busy_world ''/tmp/notes.txt'' = Some ''keep''"
    "open_files busy_world = [''/tmp/notes.txt'']"
    "environ busy_world ''HOME'' = Some ''/root''"
    "spawned busy_world = [''ls'']"
    by (simp_all add: busy_world_def)
  note t = only_icon_file_and_stdout_change [where w = busy_world and E = "environ busy_world"]
  from t have "\<forall>p. p \<noteq> icon_path \<longrightarrow>
      files (snd (create_app_icon busy_world)) p = files busy_world p"
    by (rule conjunct1)
  from this [THEN spec, THEN mp, OF n] v(1)
  have a: "files (snd (create_app_icon busy_world)) ''/tmp/notes.txt'' = Some ''keep''"
    by (rule trans)
  from t have b: "open_files (snd (create_app_icon busy_world)) = [''/tmp/notes.txt'']"
    by (simp only: v)
  from t have c: "environ (snd (create_app_icon busy_world)) ''HOME'' = Some ''/root''"
    by (simp only: v)
  from t have d: "spawned (snd (create_app_icon busy_world)) = [''ls'']"
    by (simp only: v)
  show ?thesis by (intro conjI) (rule n a b c d)+
qed

text \<open>
  C8. The open adds a handle; after \<open>create_app_icon\<close>, and after the program, the
  open handles are those from before, on the paths that return and on those that raise.
\<close>

theorem handle_closed_on_every_path:
  "(\<forall>f w1. open_w icon_path w = (Inr f, w1) \<longrightarrow> open_files w1 = f # open_files w) \<and>
   open_files (snd (create_app_icon w)) = open_files w \<and>
   open_files (snd (main w)) = open_files w"
  by (auto simp: main_world create_app_icon_frame open_w_def split: option.splits)

theorem handle_closed_on_every_path_witness:
  "open_w icon_path failing_device_world =
     (Inr icon_path, failing_device_world
        \<lparr>files := (files failing_device_world)(icon_path \<mapsto> []),
         open_files := icon_path # open_files failing_device_world\<rparr>) \<and>
   fst (create_app_icon failing_device_world) = Inl EIO \<and>
   open_files (snd (create_app_icon failing_device_world)) = []"
proof -
  have o: "open_w icon_path failing_device_world =
     (Inr icon_path, failing_device_world
        \<lparr>files := (files failing_device_world)(icon_path \<mapsto> []),
         open_files := icon_path # open_files failing_device_world\<rparr>)"
    by (simp add: open_w_def failing_device_world_def)
  have e: "open_files failing_device_world = []" by (simp add: failing_device_world_def)
  from handle_closed_on_every_path [of failing_device_world]
  have "open_files (snd (create_app_icon failing_device_world)) = open_files failing_device_world"
    by (simp only:)
  with e have c: "open_files (snd (create_app_icon failing_device_world)) = []"
    by (simp only:)
  show ?thesis by (intro conjI) (rule o failing_device_world_fails c)+
qed

text \<open>
  C9. Two runs that return normally, from any two worlds, return the same value, leave
  the same contents at \<^verbatim>\<open>/tmp/joanie_icon.svg\<close> and add the same text to standard
  output.
\<close>

theorem successful_runs_agree:
  assumes "fst (create_app_icon w) = Inr b" and "fst (create_app_icon v) = Inr c"
  shows "b = c \<and>
         files (snd (create_app_icon w)) icon_path = files (snd (create_app_icon v)) icon_path \<and>
         (\<exists>out. stdout (snd (create_app_icon w)) = stdout w @ out \<and>
                stdout (snd (create_app_icon v)) = stdout v @ out)"
proof -
  have "stdout (snd (create_app_icon w)) = stdout w @ console_text"
    using assms(1) by (rule create_app_icon_Inr(3))
  moreover have "stdout (snd (create_app_icon v)) = stdout v @ console_text"
    using assms(2) by (rule create_app_icon_Inr(3))
  ultimately have out: "\<exists>out. stdout (snd (create_app_icon w)) = stdout w @ out \<and>
                stdout (snd (create_app_icon v)) = stdout v @ out"
    by (intro exI conjI)
  from create_app_icon_Inr(1) [OF assms(1)] create_app_icon_Inr(1) [OF assms(2)]
  have bc: "b = c" by simp
  from create_app_icon_Inr(4) [OF assms(1)] create_app_icon_Inr(4) [OF assms(2)]
  have fs: "files (snd (create_app_icon w)) icon_path = files (snd (create_app_icon v)) icon_path"
    by simp
  show ?thesis by (intro conjI) (rule bc fs out)+
qed

theorem successful_runs_agree_witness:
  "fst (create_app_icon fresh_world) = Inr True \<and>
   fst (create_app_icon busy_world) = Inr True \<and>
   files (snd (create_app_icon fresh_world)) icon_path =
     files (snd (create_app_icon busy_world)) icon_path"
proof -
  from successful_runs_agree [OF fresh_world_succeeds busy_world_succeeds]
  have "files (snd (create_app_icon fresh_world)) icon_path =
     files (snd (create_app_icon busy_world)) icon_path"
    by (simp only:)
  with fresh_world_succeeds busy_world_succeeds show ?thesis by (simp only: simp_thms)
qed

text \<open>
  C10. A run that does not raise returns \<^verbatim>\<open>True\<close>.
\<close>

theorem normal_return_is_True:
  assumes "\<not> isl (fst (create_app_icon w))"
  shows "fst (create_app_icon w) = Inr True"
proof (cases "fst (create_app_icon w)")
  case (Inl e)
  with assms show ?thesis by simp
next
  case (Inr b)
  from create_app_icon_Inr(1) [OF Inr] Inr show ?thesis by simp
qed

theorem normal_return_is_True_witness:
  "\<not> isl (fst (create_app_icon busy_world)) \<and> fst (create_app_icon busy_world) = Inr True"
proof -
  have n: "\<not> isl (fst (create_app_icon busy_world))"
    by (simp add: busy_world_succeeds)
  show ?thesis by (rule conjI [OF n normal_return_is_True [OF n]])
qed

end
